theory Spec2Isabelle
  imports Main "HOL-Library.AList" "HOL-Library.Sublist"
begin

section \<open>Outlook to Google Calendar synchronisation: the sync state machine\<close>

text \<open>
  A shallow embedding of \<^verbatim>\<open>src/outlook2gcal.py\<close>: the event identifier of
  \<^verbatim>\<open>OutlookReader.get_events\<close>, the three \<^verbatim>\<open>GoogleSync\<close> methods the sync
  cycle calls, the class \<^verbatim>\<open>SyncMonitor\<close> (the ledger) and the closure
  \<^verbatim>\<open>sync_events\<close> of \<^verbatim>\<open>main\<close>.

  Conventions.
  \<^item> A Python \<^verbatim>\<open>str\<close> is a \<open>string\<close> holding its UTF-8 bytes.
  \<^item> A naive \<^verbatim>\<open>datetime\<close> is an \<open>int\<close>: microseconds on the local time line.
  \<^item> A Python \<^verbatim>\<open>dict\<close> is an association list in insertion order;
    \<^verbatim>\<open>d[k] = v\<close> is \<open>AList.update\<close> (in place when the key exists, appended
    otherwise) and \<^verbatim>\<open>del d[k]\<close> is \<open>AList.delete\<close>.
  \<^item> Everything outside the program (the Google API behind \<^verbatim>\<open>self.service\<close>, the
    system clock, the library functions \<^verbatim>\<open>isoformat\<close>, \<^verbatim>\<open>fromisoformat\<close>,
    \<^verbatim>\<open>hashlib.md5\<close>, and the iteration order of a Python \<^verbatim>\<open>set\<close>) is a
    parameter; the state of the outside world is a value of an arbitrary type \<open>'w\<close> that
    every external call may change.
\<close>

subsection \<open>Python string helpers\<close>

definition truthy :: "string option \<Rightarrow> bool" where
  \<comment> \<open>\<^verbatim>\<open>if x:\<close> for an \<^verbatim>\<open>Optional[str]\<close>: \<^verbatim>\<open>None\<close> and \<^verbatim>\<open>''\<close> are false.\<close>
  "truthy x = (case x of None \<Rightarrow> False | Some s \<Rightarrow> s \<noteq> [])"

definition is_space :: "char \<Rightarrow> bool" where
  \<comment> \<open>the ASCII characters \<^verbatim>\<open>str.strip()\<close> removes: TAB..CR, FS..US and the blank\<close>
  "is_space c = (let n = of_char c :: nat in (9 \<le> n \<and> n \<le> 13) \<or> (28 \<le> n \<and> n \<le> 32))"

definition strip :: "string \<Rightarrow> string" where
  "strip s = rev (dropWhile is_space (rev (dropWhile is_space s)))"

definition is_digit :: "char \<Rightarrow> bool" where
  "is_digit c = (let n = of_char c :: nat in 48 \<le> n \<and> n \<le> 57)"

definition isdigit :: "string \<Rightarrow> bool" where
  \<comment> \<open>\<^verbatim>\<open>str.isdigit()\<close>: at least one character and all of them digits\<close>
  "isdigit s = (s \<noteq> [] \<and> list_all is_digit s)"

function replace :: "string \<Rightarrow> string \<Rightarrow> string \<Rightarrow> string" where
  \<comment> \<open>\<^verbatim>\<open>s.replace(old, new)\<close> for a non-empty \<^verbatim>\<open>old\<close>: leftmost occurrences, not overlapping\<close>
  "replace old new [] = []"
| "replace old new (c # cs) =
     (if old \<noteq> [] \<and> prefix old (c # cs)
      then new @ replace old new (drop (length old) (c # cs))
      else c # replace old new cs)"
  by pat_completeness auto
termination
  by (relation "measure (\<lambda>(old, new, s). length s)") auto

subsection \<open>Events read from Outlook\<close>

text \<open>The dictionary built by \<^verbatim>\<open>get_events\<close> (lines 177-193), with the keys the sync uses.\<close>

record event =
  ev_id :: string
  ev_title :: string
  start_date :: int
  end_date :: int
  location :: string
  calendar_title :: string
  organizer :: string
  content :: string
  importance :: string

definition organizer_part :: "string list \<Rightarrow> string" where
  \<comment> \<open>line 172: \<^verbatim>\<open>parts[5] if len(parts) > 5 else ''\<close>\<close>
  "organizer_part parts = (if length parts > 5 then parts ! 5 else [])"

definition hash_input :: "(int \<Rightarrow> string) \<Rightarrow> string list \<Rightarrow> int \<Rightarrow> string" where
  \<comment> \<open>line 173; \<open>isofmt\<close> is \<^verbatim>\<open>datetime.isoformat\<close>, \<open>sd\<close> is \<^verbatim>\<open>parse_date(parts[1])\<close>\<close>
  "hash_input isofmt parts sd = parts ! 0 @ ''-'' @ isofmt sd @ ''-'' @ organizer_part parts"

definition unique_id :: "(string \<Rightarrow> string) \<Rightarrow> (int \<Rightarrow> string) \<Rightarrow> string list \<Rightarrow> int \<Rightarrow> string" where
  \<comment> \<open>line 174; \<open>md5hex s\<close> is \<^verbatim>\<open>hashlib.md5(s.encode()).hexdigest()\<close>\<close>
  "unique_id md5hex isofmt parts sd = ''outlook-'' @ take 16 (md5hex (hash_input isofmt parts sd))"

definition make_event ::
  "(string \<Rightarrow> string) \<Rightarrow> (int \<Rightarrow> string) \<Rightarrow> string list \<Rightarrow> int \<Rightarrow> int \<Rightarrow> event option" where
  \<comment> \<open>lines 165-193 for one line of the AppleScript output, already split at \<^verbatim>\<open>|#|\<close>;
      \<open>sd\<close> and \<open>ed\<close> are the parsed start and end. A line with fewer than four parts
      gives no event.\<close>
  "make_event md5hex isofmt parts sd ed =
     (if length parts \<ge> 4 then
        Some \<lparr> ev_id = unique_id md5hex isofmt parts sd,
               ev_title = parts ! 0,
               start_date = sd,
               end_date = ed,
               location = (if length parts > 4 then parts ! 4 else []),
               calendar_title = parts ! 3,
               organizer = (if length parts > 5 then parts ! 5 else []),
               content = (if length parts > 6 then parts ! 6 else []),
               importance = (if length parts > 7 then parts ! 7 else []) \<rparr>
      else None)"

subsection \<open>The ledger of \<^verbatim>\<open>SyncMonitor\<close>\<close>

text \<open>
  One value of \<^verbatim>\<open>synced_events\<close>. A field is \<open>None\<close> when the key is absent from the
  dictionary (for \<open>google_event_id\<close> also when it holds \<^verbatim>\<open>None\<close>, which
  \<^verbatim>\<open>mark_synced\<close> can store): the code reads the fields with \<^verbatim>\<open>.get\<close>.
\<close>

record entry =
  synced_date :: "string option"
  event_date :: "string option"
  title :: "string option"
  google_event_id :: "string option"

type_synonym ledger = "(string \<times> entry) list"

datatype pydatetime = Naive int | Aware int

definition days60 :: int where
  \<comment> \<open>\<^verbatim>\<open>timedelta(days=60)\<close> in microseconds\<close>
  "days60 = 60 * 86400 * 1000000"

definition is_old_style_id :: "string \<Rightarrow> bool" where
  \<comment> \<open>lines 441 and 500: \<^verbatim>\<open>old_id.startswith('outlook--') and old_id[9:].lstrip('-').isdigit()\<close>\<close>
  "is_old_style_id k =
     (prefix ''outlook--'' k \<and> isdigit (dropWhile (\<lambda>c. c = CHR ''-'') (drop 9 k)))"

definition get_or_empty :: "string option \<Rightarrow> string" where
  \<comment> \<open>\<^verbatim>\<open>info.get(key, '')\<close>\<close>
  "get_or_empty x = (case x of None \<Rightarrow> [] | Some s \<Rightarrow> s)"

definition migrate_step ::
  "string \<times> entry \<Rightarrow> ledger \<times> ledger \<times> nat \<Rightarrow> ledger \<times> ledger \<times> nat" where
  \<comment> \<open>lines 439-452, one iteration. The loop state is \<^verbatim>\<open>self.synced_events\<close>, the local
      \<^verbatim>\<open>migrated_events\<close> and \<^verbatim>\<open>migration_count\<close>.\<close>
  "migrate_step p st =
     (case st of (synced, migrated_events, migration_count) \<Rightarrow>
        if is_old_style_id (fst p)
        then (synced, migrated_events, migration_count + 1)
        else (synced, AList.update (fst p) (snd p) migrated_events, migration_count))"

definition migrate_old_ids :: "ledger \<Rightarrow> ledger" where
  \<comment> \<open>lines 434-456: the loop over a copy of the items; the method returns nothing and
      its effect is the \<^verbatim>\<open>self.synced_events\<close> it leaves.\<close>
  "migrate_old_ids L = fst (fold migrate_step L (L, [], 0))"

definition entry_expired :: "(string \<Rightarrow> pydatetime option) \<Rightarrow> int \<Rightarrow> entry \<Rightarrow> bool" where
  \<comment> \<open>lines 473-479: whether \<^verbatim>\<open>cleanup_old_events\<close> puts the entry on \<^verbatim>\<open>old_events\<close>.
      \<open>fromiso\<close> returns \<open>None\<close> where \<^verbatim>\<open>fromisoformat\<close> raises ValueError; comparing
      a timezone-aware value with the naive cutoff raises TypeError.\<close>
  "entry_expired fromiso cutoff_date event_info =
     (case fromiso (get_or_empty (synced_date event_info)) of
        None \<Rightarrow> True
      | Some (Aware t) \<Rightarrow> True
      | Some (Naive t) \<Rightarrow> t < cutoff_date)"

definition cleanup_old_events :: "(string \<Rightarrow> pydatetime option) \<Rightarrow> int \<Rightarrow> ledger \<Rightarrow> ledger" where
  \<comment> \<open>lines 467-485; \<open>now\<close> is the value of \<^verbatim>\<open>datetime.now()\<close> on line 469\<close>
  "cleanup_old_events fromiso now L =
     (let cutoff_date = now - days60;
          old_events = map fst (filter (\<lambda>(event_id, event_info).
                                  entry_expired fromiso cutoff_date event_info) L)
      in fold AList.delete old_events L)"

definition get_synced_event_ids :: "ledger \<Rightarrow> string list" where
  \<comment> \<open>line 489: \<^verbatim>\<open>set(self.synced_events.keys())\<close>, a set as a list without duplicates\<close>
  "get_synced_event_ids L = remdups (map fst L)"

definition remove_synced_event :: "string \<Rightarrow> ledger \<Rightarrow> ledger" where
  "remove_synced_event event_id L =
     (if event_id \<in> fst ` set L then AList.delete event_id L else L)"

definition old_event_matches :: "(int \<Rightarrow> string) \<Rightarrow> event \<Rightarrow> string \<times> entry \<Rightarrow> bool" where
  \<comment> \<open>lines 500-503\<close>
  "old_event_matches isofmt new_event p =
     (is_old_style_id (fst p)
      \<and> strip (get_or_empty (title (snd p))) = strip (ev_title new_event)
      \<and> get_or_empty (event_date (snd p)) = isofmt (start_date new_event))"

definition find_matching_old_event :: "(int \<Rightarrow> string) \<Rightarrow> ledger \<Rightarrow> event \<Rightarrow> string option" where
  \<comment> \<open>lines 496-505: the first key, in insertion order, that matches\<close>
  "find_matching_old_event isofmt L new_event =
     map_option fst (find (old_event_matches isofmt new_event) L)"

definition update_event_id ::
  "(int \<Rightarrow> string) \<Rightarrow> int \<Rightarrow> string \<Rightarrow> string \<Rightarrow> event \<Rightarrow> ledger \<Rightarrow> ledger" where
  \<comment> \<open>lines 507-524; \<open>now\<close> is \<^verbatim>\<open>datetime.now()\<close> on line 514\<close>
  "update_event_id isofmt now old_id new_id new_event L =
     (case map_of L old_id of
        None \<Rightarrow> L
      | Some old_data \<Rightarrow>
          AList.delete old_id
            (AList.update new_id
               (old_data \<lparr> synced_date := Some (isofmt now),
                           event_date := Some (isofmt (start_date new_event)),
                           title := Some (ev_title new_event) \<rparr>) L))"

definition is_synced :: "ledger \<Rightarrow> event \<Rightarrow> bool" where
  "is_synced L ev = (ev_id ev \<in> fst ` set L)"

definition mark_synced :: "(int \<Rightarrow> string) \<Rightarrow> int \<Rightarrow> event \<Rightarrow> string option \<Rightarrow> ledger \<Rightarrow> ledger" where
  \<comment> \<open>lines 530-540; \<open>now\<close> is \<^verbatim>\<open>datetime.now()\<close> on line 536\<close>
  "mark_synced isofmt now ev gid L =
     AList.update (ev_id ev)
       \<lparr> synced_date = Some (isofmt now),
         event_date = Some (isofmt (start_date ev)),
         title = Some (ev_title ev),
         google_event_id = gid \<rparr> L"

subsection \<open>The outside world\<close>

datatype 'a api_result = Ok 'a | HttpError nat

text \<open>An item of an \<^verbatim>\<open>events().list\<close> answer, read with \<^verbatim>\<open>.get\<close> (lines 370 and 375).\<close>

record gitem =
  summary :: "string option"
  item_id :: "string option"

text \<open>The body sent to \<^verbatim>\<open>events().insert\<close> (lines 313-325); the time zone is a constant.\<close>

record gbody =
  g_summary :: string
  g_description :: string
  g_location :: string
  g_start :: string
  g_end :: string

text \<open>
  The three API calls behind \<^verbatim>\<open>self.service\<close>, on the calendar
  \<^verbatim>\<open>self.calendar_id\<close>. Each answers or raises \<^verbatim>\<open>HttpError\<close> with a status, and
  may change the world.
\<close>

record 'w service =
  events_insert :: "gbody \<Rightarrow> 'w \<Rightarrow> string api_result \<times> 'w"
  events_list :: "string \<Rightarrow> string \<Rightarrow> 'w \<Rightarrow> gitem list api_result \<times> 'w"
  events_delete :: "string \<Rightarrow> 'w \<Rightarrow> unit api_result \<times> 'w"

record 'w env =
  service :: "'w service option"
  now :: "'w \<Rightarrow> int \<times> 'w"
  isoformat :: "int \<Rightarrow> string"
  fromisoformat :: "string \<Rightarrow> pydatetime option"
  set_rank :: "string \<Rightarrow> nat"

text \<open>
  \<open>service\<close> is \<open>None\<close> when authentication did not build it; \<open>now\<close> is
  \<^verbatim>\<open>datetime.now()\<close>; \<open>set_rank\<close> fixes the order in which a Python set of strings is
  iterated (stable sorting by an arbitrary rank reaches every order).
\<close>

subsection \<open>\<^verbatim>\<open>GoogleSync\<close>\<close>

definition envelope :: string where
  \<comment> \<open>U+1F4E7 and a blank, the prefix of line 314 that line 372 removes\<close>
  "envelope = [CHR 0xF0, CHR 0x9F, CHR 0x93, CHR 0xA7, CHR '' '']"

definition google_event :: "(int \<Rightarrow> string) \<Rightarrow> event \<Rightarrow> gbody" where
  \<comment> \<open>lines 308-325\<close>
  "google_event isofmt outlook_event =
     \<lparr> g_summary = envelope @ ev_title outlook_event,
       g_description =
         [CHR 0xF0, CHR 0x9F, CHR 0x8E, CHR 0xAF] @ '' Invited Event from Outlook Calendar: ''
           @ calendar_title outlook_event
           @ (if organizer outlook_event \<noteq> []
              then [CHR 0x0A, CHR 0xF0, CHR 0x9F, CHR 0x91, CHR 0xA4] @ '' Organizer: ''
                     @ organizer outlook_event
              else []),
       g_location = location outlook_event,
       g_start = isofmt (start_date outlook_event),
       g_end = isofmt (end_date outlook_event) \<rparr>"

definition create_event :: "'w env \<Rightarrow> event \<Rightarrow> 'w \<Rightarrow> string option \<times> 'w" where
  \<comment> \<open>lines 301-337\<close>
  "create_event E outlook_event w =
     (case service E of
        None \<Rightarrow> (None, w)
      | Some svc \<Rightarrow>
          (case events_insert svc (google_event (isoformat E) outlook_event) w of
             (Ok new_id, w') \<Rightarrow> (Some new_id, w')
           | (HttpError status, w') \<Rightarrow> (None, w')))"

definition day_us :: int where
  "day_us = 86400 * 1000000"

definition first_title_match :: "string \<Rightarrow> gitem list \<Rightarrow> string option" where
  \<comment> \<open>lines 367-377: the \<^verbatim>\<open>id\<close> of the first item whose cleaned summary is the title\<close>
  "first_title_match target_title events =
     (case find (\<lambda>ev. replace envelope [] (get_or_empty (summary ev)) = target_title) events of
        None \<Rightarrow> None
      | Some ev \<Rightarrow> item_id ev)"

definition check_event_exists :: "'w env \<Rightarrow> event \<Rightarrow> 'w \<Rightarrow> string option \<times> 'w" where
  \<comment> \<open>lines 339-381\<close>
  "check_event_exists E outlook_event w =
     (case service E of
        None \<Rightarrow> (None, w)
      | Some svc \<Rightarrow>
          (let start_time = start_date outlook_event;
               same_day_start = start_time - start_time mod day_us;
               same_day_end = same_day_start + (23 * 3600 + 59 * 60 + 59) * 1000000;
               time_min = isoformat E same_day_start @ ''+09:00'';
               time_max = isoformat E same_day_end @ ''+09:00''
           in case events_list svc time_min time_max w of
                (Ok events, w') \<Rightarrow> (first_title_match (ev_title outlook_event) events, w')
              | (HttpError status, w') \<Rightarrow> (None, w')))"

definition delete_event :: "'w env \<Rightarrow> string \<Rightarrow> 'w \<Rightarrow> bool \<times> 'w" where
  \<comment> \<open>lines 383-399\<close>
  "delete_event E gid w =
     (case service E of
        None \<Rightarrow> (False, w)
      | Some svc \<Rightarrow>
          (case events_delete svc gid w of
             (Ok u, w') \<Rightarrow> (True, w')
           | (HttpError status, w') \<Rightarrow> (status = 404, w')))"

subsection \<open>One sync cycle: \<^verbatim>\<open>sync_events\<close>\<close>

text \<open>
  The calls a cycle makes to \<^verbatim>\<open>GoogleSync\<close>, each with the value it returned, in the
  order they are made.
\<close>

datatype call =
  CheckExists event "string option"
| Create event "string option"
| Delete string bool

record 'w sync_state =
  synced_events :: ledger
  world :: 'w
  calls :: "call list"

definition classify_event ::
  "'w env \<Rightarrow> event \<Rightarrow> 'w sync_state \<times> event list \<Rightarrow> 'w sync_state \<times> event list" where
  \<comment> \<open>lines 649-667, one iteration; the second component is \<^verbatim>\<open>new_events\<close>. A key found
      by \<^verbatim>\<open>find_matching_old_event\<close> begins with \<^verbatim>\<open>outlook--\<close>, so line 656 takes it
      as true.\<close>
  "classify_event E ev st =
     (case st of (s, new_events) \<Rightarrow>
        if is_synced (synced_events s) ev then (s, new_events)
        else
          (case find_matching_old_event (isoformat E) (synced_events s) ev of
             Some old_event_match \<Rightarrow>
               (case now E (world s) of (t, w1) \<Rightarrow>
                  (s \<lparr> synced_events :=
                         update_event_id (isoformat E) t old_event_match (ev_id ev) ev
                           (synced_events s),
                       world := w1 \<rparr>,
                   new_events))
           | None \<Rightarrow>
               (case check_event_exists E ev (world s) of (existing, w1) \<Rightarrow>
                  if truthy existing
                  then (case now E w1 of (t, w2) \<Rightarrow>
                          (s \<lparr> synced_events :=
                                 mark_synced (isoformat E) t ev existing (synced_events s),
                               world := w2,
                               calls := calls s @ [CheckExists ev existing] \<rparr>,
                           new_events))
                  else (s \<lparr> world := w1, calls := calls s @ [CheckExists ev existing] \<rparr>,
                        new_events @ [ev]))))"

definition sync_new_event :: "'w env \<Rightarrow> event \<Rightarrow> 'w sync_state \<Rightarrow> 'w sync_state" where
  \<comment> \<open>lines 672-679, one iteration\<close>
  "sync_new_event E ev s =
     (case create_event E ev (world s) of (gid, w1) \<Rightarrow>
        if truthy gid
        then (case now E w1 of (t, w2) \<Rightarrow>
                s \<lparr> synced_events :=
                      mark_synced (isoformat E) t ev gid (synced_events s),
                    world := w2,
                    calls := calls s @ [Create ev gid] \<rparr>)
        else s \<lparr> world := w1, calls := calls s @ [Create ev gid] \<rparr>)"

definition deleted_event_ids :: "'w env \<Rightarrow> event list \<Rightarrow> ledger \<Rightarrow> string list" where
  \<comment> \<open>lines 686-688: \<^verbatim>\<open>synced_event_ids - current_event_ids\<close>, in the order line 692
      iterates the set\<close>
  "deleted_event_ids E events L =
     (let current_event_ids = remdups (map ev_id events);
          synced_event_ids = get_synced_event_ids L
      in sort_key (set_rank E) (filter (\<lambda>k. k \<notin> set current_event_ids) synced_event_ids))"

definition stored_google_id :: "ledger \<Rightarrow> string \<Rightarrow> string option" where
  \<comment> \<open>lines 693-694: \<^verbatim>\<open>synced_events.get(event_id, {}).get('google_event_id')\<close>\<close>
  "stored_google_id L event_id =
     (case map_of L event_id of None \<Rightarrow> None | Some event_info \<Rightarrow> google_event_id event_info)"

definition delete_synced :: "'w env \<Rightarrow> string \<Rightarrow> 'w sync_state \<Rightarrow> 'w sync_state" where
  \<comment> \<open>lines 693-706, one iteration\<close>
  "delete_synced E event_id s =
     (let gid = stored_google_id (synced_events s) event_id
      in if truthy gid
         then (case delete_event E (the gid) (world s) of (ok, w1) \<Rightarrow>
                 if ok
                 then s \<lparr> synced_events := remove_synced_event event_id (synced_events s),
                          world := w1,
                          calls := calls s @ [Delete (the gid) ok] \<rparr>
                 else s \<lparr> world := w1, calls := calls s @ [Delete (the gid) ok] \<rparr>)
         else s \<lparr> synced_events := remove_synced_event event_id (synced_events s) \<rparr>)"

definition classify_all :: "'w env \<Rightarrow> event list \<Rightarrow> 'w sync_state \<Rightarrow> 'w sync_state \<times> event list" where
  \<comment> \<open>lines 648-667\<close>
  "classify_all E events s = fold (classify_event E) events (s, [])"

definition create_all :: "'w env \<Rightarrow> event list \<Rightarrow> 'w sync_state \<Rightarrow> 'w sync_state" where
  \<comment> \<open>lines 669-683; \<^verbatim>\<open>save_state\<close> writes the ledger to the state file and leaves it as it is\<close>
  "create_all E new_events s = fold (sync_new_event E) new_events s"

definition delete_all :: "'w env \<Rightarrow> event list \<Rightarrow> 'w sync_state \<Rightarrow> 'w sync_state" where
  \<comment> \<open>lines 685-708\<close>
  "delete_all E events s =
     fold (delete_synced E) (deleted_event_ids E events (synced_events s)) s"

definition sync_events :: "'w env \<Rightarrow> event list \<Rightarrow> 'w sync_state \<Rightarrow> 'w sync_state" where
  \<comment> \<open>lines 619-708; \<open>events\<close> is what \<^verbatim>\<open>outlook.get_events\<close> returned on line 622\<close>
  "sync_events E events s =
     (case classify_all E events s of (s1, new_events) \<Rightarrow>
        delete_all E events (create_all E new_events s1))"

definition cycle_calls :: "'w env \<Rightarrow> event list \<Rightarrow> 'w sync_state \<Rightarrow> call list" where
  \<comment> \<open>the calls one cycle adds to the record\<close>
  "cycle_calls E events s = drop (length (calls s)) (calls (sync_events E events s))"

subsection \<open>Loading the ledger: \<^verbatim>\<open>SyncMonitor.__init__\<close> and \<^verbatim>\<open>load_state\<close>\<close>

text \<open>
  What \<^verbatim>\<open>load_state\<close> finds at \<^verbatim>\<open>self.state_file\<close>: no file; a file that
  \<^verbatim>\<open>open\<close> cannot read; content that \<^verbatim>\<open>json.load\<close> rejects; JSON of a shape on which a
  later statement raises (not an object, or members of other types); an object whose
  \<^verbatim>\<open>synced_events\<close> is a list of identifiers (the old format; also an object without
  that key, with the empty list); an object whose \<^verbatim>\<open>synced_events\<close> is a dictionary of
  entries.
\<close>

datatype file_state =
  FileMissing
| OpenFails
| NotJson
| BadShape
| StateList "string list"
| StateDict ledger

definition convert_old_format :: "'w env \<Rightarrow> string list \<Rightarrow> 'w \<Rightarrow> ledger \<times> 'w" where
  \<comment> \<open>lines 417-418: the dictionary comprehension reads the clock for every identifier\<close>
  "convert_old_format E synced_events_data w =
     fold (\<lambda>event_id (L, w0).
             case now E w0 of (t, w1) \<Rightarrow>
               (AList.update event_id
                  \<lparr> synced_date = Some (isoformat E t), event_date = None,
                    title = None, google_event_id = None \<rparr> L, w1))
          synced_events_data ([], w)"

definition load_state :: "'w env \<Rightarrow> file_state \<Rightarrow> 'w \<Rightarrow> ledger \<times> 'w" where
  \<comment> \<open>lines 402-432, from the empty dictionary of line 404; every exception raised inside
      the \<^verbatim>\<open>try\<close> is caught on line 430\<close>
  "load_state E file w =
     (case file of
        FileMissing \<Rightarrow> ([], w)
      | OpenFails \<Rightarrow> ([], w)
      | NotJson \<Rightarrow> ([], w)
      | BadShape \<Rightarrow> ([], w)
      | StateList synced_events_data \<Rightarrow>
          (case convert_old_format E synced_events_data w of (L, w1) \<Rightarrow>
             (case now E w1 of (t, w2) \<Rightarrow>
                (cleanup_old_events (fromisoformat E) t (migrate_old_ids L), w2)))
      | StateDict synced_events_data \<Rightarrow>
          (case now E w of (t, w1) \<Rightarrow>
             (cleanup_old_events (fromisoformat E) t (migrate_old_ids synced_events_data), w1)))"

subsection \<open>The library functions on the strings the program writes\<close>

text \<open>
  \<^verbatim>\<open>datetime.isoformat\<close> for a naive value, and \<^verbatim>\<open>datetime.fromisoformat\<close> on the
  strings it produces (\<^verbatim>\<open>YYYY-MM-DDTHH:MM:SS\<close>, with \<^verbatim>\<open>.ffffff\<close> when the microseconds
  are not zero); on every other string this \<open>py_fromisoformat\<close> answers \<open>None\<close>. The time
  line counts microseconds from 1970-01-01T00:00:00. They instantiate the parameters in
  the examples; the general theorems hold for every \<open>isoformat\<close> and \<open>fromisoformat\<close>.
\<close>

definition days_from_civil :: "int \<Rightarrow> int \<Rightarrow> int \<Rightarrow> int" where
  "days_from_civil y m d =
     (let y1 = (if m \<le> 2 then y - 1 else y);
          era = y1 div 400;
          yoe = y1 - era * 400;
          doy = (153 * (if m > 2 then m - 3 else m + 9) + 2) div 5 + d - 1;
          doe = yoe * 365 + yoe div 4 - yoe div 100 + doy
      in era * 146097 + doe - 719468)"

definition civil_from_days :: "int \<Rightarrow> int \<times> int \<times> int" where
  "civil_from_days z =
     (let z1 = z + 719468;
          era = z1 div 146097;
          doe = z1 - era * 146097;
          yoe = (doe - doe div 1460 + doe div 36524 - doe div 146096) div 365;
          doy = doe - (365 * yoe + yoe div 4 - yoe div 100);
          mp = (5 * doy + 2) div 153;
          d = doy - (153 * mp + 2) div 5 + 1;
          m = (if mp < 10 then mp + 3 else mp - 9)
      in (yoe + era * 400 + (if m \<le> 2 then 1 else 0), m, d))"

definition digit_char :: "int \<Rightarrow> char" where
  "digit_char d = ''0123456789'' ! nat d"

fun zero_pad :: "nat \<Rightarrow> int \<Rightarrow> string" where
  "zero_pad 0 n = []"
| "zero_pad (Suc k) n = zero_pad k (n div 10) @ [digit_char (n mod 10)]"

definition py_isoformat :: "int \<Rightarrow> string" where
  "py_isoformat t =
     (let days = t div day_us;
          r = t mod day_us;
          us = r mod 1000000;
          secs = r div 1000000
      in case civil_from_days days of (y, m, d) \<Rightarrow>
           zero_pad 4 y @ ''-'' @ zero_pad 2 m @ ''-'' @ zero_pad 2 d @ ''T''
           @ zero_pad 2 (secs div 3600) @ '':'' @ zero_pad 2 (secs div 60 mod 60) @ '':''
           @ zero_pad 2 (secs mod 60)
           @ (if us = 0 then [] else ''.'' @ zero_pad 6 us))"

definition read_int :: "string \<Rightarrow> int option" where
  "read_int s =
     (if isdigit s then Some (fold (\<lambda>c n. 10 * n + (of_char c - 48)) s 0) else None)"

definition py_fromisoformat :: "string \<Rightarrow> pydatetime option" where
  "py_fromisoformat s =
     (if (length s = 19 \<or> length s = 26 \<and> s ! 19 = CHR ''.'')
         \<and> s ! 4 = CHR ''-'' \<and> s ! 7 = CHR ''-'' \<and> s ! 13 = CHR '':'' \<and> s ! 16 = CHR '':''
      then
        (case (read_int (take 4 s), read_int (take 2 (drop 5 s)), read_int (take 2 (drop 8 s)),
               read_int (take 2 (drop 11 s)), read_int (take 2 (drop 14 s)),
               read_int (take 2 (drop 17 s)),
               if length s = 19 then Some 0 else read_int (drop 20 s)) of
           (Some y, Some m, Some d, Some hh, Some mm, Some ss, Some us) \<Rightarrow>
             (let days = days_from_civil y m d
              in if 1 \<le> y \<and> civil_from_days days = (y, m, d)
                    \<and> hh < 24 \<and> mm < 60 \<and> ss < 60
                 then Some (Naive (days * day_us + (hh * 3600 + mm * 60 + ss) * 1000000 + us))
                 else None)
         | _ \<Rightarrow> None)
      else None)"

subsection \<open>A small world for the examples\<close>

text \<open>
  A calendar held in memory: the clock and the remote events as pairs of identifier and
  summary. \<open>cal_service\<close> answers every call; \<open>down_service\<close> answers every call with
  HTTP status 503.
\<close>

type_synonym cal_world = "int \<times> (string \<times> string) list"

definition cal_service :: "cal_world service" where
  "cal_service =
     \<lparr> events_insert = (\<lambda>b (t, cal).
         let new_id = ''g'' @ zero_pad 3 (int (length cal))
         in (Ok new_id, (t, cal @ [(new_id, g_summary b)]))),
       events_list = (\<lambda>time_min time_max (t, cal).
         (Ok (map (\<lambda>(i, sm). \<lparr> summary = Some sm, item_id = Some i \<rparr>) cal), (t, cal))),
       events_delete = (\<lambda>g (t, cal).
         if g \<in> fst ` set cal then (Ok (), (t, filter (\<lambda>p. fst p \<noteq> g) cal))
         else (HttpError 404, (t, cal))) \<rparr>"

definition down_service :: "cal_world service" where
  "down_service =
     \<lparr> events_insert = (\<lambda>b w. (HttpError 503, w)),
       events_list = (\<lambda>time_min time_max w. (HttpError 503, w)),
       events_delete = (\<lambda>g w. (HttpError 503, w)) \<rparr>"

definition cal_now :: "cal_world \<Rightarrow> int \<times> cal_world" where
  "cal_now w = (case w of (t, cal) \<Rightarrow> (t, (t + 1000000, cal)))"

definition cal_env :: "cal_world env" where
  "cal_env =
     \<lparr> service = Some cal_service, now = cal_now, isoformat = py_isoformat,
       fromisoformat = py_fromisoformat, set_rank = (\<lambda>k. 0) \<rparr>"

definition down_env :: "cal_world env" where
  "down_env = cal_env \<lparr> service := Some down_service \<rparr>"

definition june_first :: int where
  \<comment> \<open>2024-06-01T00:00:00\<close>
  "june_first = 1717200000000000"

definition standup :: event where
  "standup =
     \<lparr> ev_id = ''outlook-0123456789abcdef'', ev_title = ''Standup'',
       start_date = 1717236000000000, end_date = 1717239600000000,
       location = ''Room 1'', calendar_title = ''Calendar'', organizer = ''alice'',
       content = [], importance = [] \<rparr>"

definition review :: event where
  "review =
     \<lparr> ev_id = ''outlook-fedcba9876543210'', ev_title = ''Sync Review'',
       start_date = 1717322400000000, end_date = 1717326000000000,
       location = [], calendar_title = ''Calendar'', organizer = ''bob'',
       content = [], importance = [] \<rparr>"

definition start_state :: "ledger \<Rightarrow> (string \<times> string) list \<Rightarrow> cal_world sync_state" where
  \<comment> \<open>a cycle starting on 2024-06-01 with the given ledger and remote calendar\<close>
  "start_state L cal = \<lparr> synced_events = L, world = (june_first, cal), calls = [] \<rparr>"

definition mixed_ledger :: ledger where
  \<comment> \<open>a recent entry, an entry without \<^verbatim>\<open>synced_date\<close>, and an entry of 2024-01-01\<close>
  "mixed_ledger =
     [(''outlook-0123456789abcdef'',
       \<lparr> synced_date = Some ''2024-05-20T09:00:00'', event_date = Some ''2024-06-01T10:00:00'',
         title = Some ''Standup'', google_event_id = Some ''g000'' \<rparr>),
      (''outlook-1111111111111111'',
       \<lparr> synced_date = None, event_date = Some ''2024-06-03T10:00:00'',
         title = Some ''Planning'', google_event_id = Some ''g001'' \<rparr>),
      (''outlook-2222222222222222'',
       \<lparr> synced_date = Some ''2024-01-01T00:00:00'', event_date = Some ''2024-01-02T10:00:00'',
         title = Some ''Kickoff'', google_event_id = Some ''g002'' \<rparr>)]"

section \<open>Properties\<close>

subsection \<open>Pruning and the scan for old identifiers\<close>

lemma fold_delete_filter: "fold AList.delete ks L = filter (\<lambda>p. fst p \<notin> set ks) L"
  by (induction ks arbitrary: L) (auto simp: AList.delete_eq case_prod_unfold intro: filter_cong)

lemma cleanup_old_events_filter:
  "cleanup_old_events fromiso t L =
     filter (\<lambda>p. fst p \<notin> fst ` {q \<in> set L. entry_expired fromiso (t - days60) (snd q)}) L"
  by (auto simp: cleanup_old_events_def fold_delete_filter case_prod_unfold intro!: filter_cong)

lemma cleanup_keeps_only_fresh:
  assumes "(k, e) \<in> set (cleanup_old_events fromiso t L)"
  shows "(k, e) \<in> set L \<and> \<not> entry_expired fromiso (t - days60) e"
  using assms unfolding cleanup_old_events_filter by force

lemma entry_expired_iff:
  "\<not> entry_expired fromiso c e \<longleftrightarrow>
     (\<exists>d. fromiso (get_or_empty (synced_date e)) = Some (Naive d) \<and> c \<le> d)"
  by (auto simp: entry_expired_def split: option.splits pydatetime.splits)

text \<open>
  Claim C10. After \<^verbatim>\<open>cleanup_old_events\<close> every remaining entry has a
  \<^verbatim>\<open>synced_date\<close> that \<^verbatim>\<open>fromisoformat\<close> parses, to a naive time not before the
  cutoff of 60 days; an entry whose \<^verbatim>\<open>synced_date\<close> is missing or does not parse is
  removed, whatever else it holds. The hypothesis is that \<^verbatim>\<open>fromisoformat('')\<close>
  raises ValueError.
\<close>

theorem cleanup_old_events_invariant:
  assumes "fromiso [] = None"
  shows "(\<forall>(k, e) \<in> set (cleanup_old_events fromiso t L).
            \<exists>d. synced_date e \<noteq> None \<and> fromiso (the (synced_date e)) = Some (Naive d)
               \<and> t - days60 \<le> d)
       \<and> (\<forall>(k, e) \<in> set L.
            (synced_date e = None \<or> fromiso (the (synced_date e)) = None)
            \<longrightarrow> k \<notin> fst ` set (cleanup_old_events fromiso t L))"
proof (intro conjI ballI)
  fix p assume p: "p \<in> set (cleanup_old_events fromiso t L)"
  obtain k e where ke: "p = (k, e)" by (cases p)
  from p ke have "\<not> entry_expired fromiso (t - days60) e"
    using cleanup_keeps_only_fresh by blast
  then obtain d where d: "fromiso (get_or_empty (synced_date e)) = Some (Naive d)" "t - days60 \<le> d"
    unfolding entry_expired_iff by blast
  with assms have "synced_date e \<noteq> None"
    by (cases "synced_date e") (auto simp: get_or_empty_def)
  with d ke show "case p of (k, e) \<Rightarrow> \<exists>d. synced_date e \<noteq> None
      \<and> fromiso (the (synced_date e)) = Some (Naive d) \<and> t - days60 \<le> d"
    by (auto simp: get_or_empty_def)
next
  fix p assume p: "p \<in> set L"
  obtain k e where ke: "p = (k, e)" by (cases p)
  have "k \<notin> fst ` set (cleanup_old_events fromiso t L)"
    if bad: "synced_date e = None \<or> fromiso (the (synced_date e)) = None"
  proof -
    from bad assms have "fromiso (get_or_empty (synced_date e)) = None"
      by (cases "synced_date e") (auto simp: get_or_empty_def)
    then have "entry_expired fromiso (t - days60) e"
      by (simp add: entry_expired_def)
    with p ke show ?thesis
      unfolding cleanup_old_events_filter by force
  qed
  with ke show "case p of (k, e) \<Rightarrow>
      (synced_date e = None \<or> fromiso (the (synced_date e)) = None)
      \<longrightarrow> k \<notin> fst ` set (cleanup_old_events fromiso t L)"
    by simp
qed

lemma py_fromisoformat_empty: "py_fromisoformat [] = None"
  by (simp add: py_fromisoformat_def)

theorem cleanup_old_events_invariant_witness:
  "py_fromisoformat [] = None
   \<and> cleanup_old_events py_fromisoformat june_first mixed_ledger = [hd mixed_ledger]
   \<and> (\<exists>d. synced_date (snd (hd mixed_ledger)) \<noteq> None
          \<and> py_fromisoformat (the (synced_date (snd (hd mixed_ledger)))) = Some (Naive d)
          \<and> june_first - days60 \<le> d)
   \<and> ''outlook-1111111111111111''
        \<notin> fst ` set (cleanup_old_events py_fromisoformat june_first mixed_ledger)"
proof -
  have h: "py_fromisoformat [] = None"
    by (simp add: py_fromisoformat_def)
  have m: "(''outlook-1111111111111111'',
       \<lparr> synced_date = None, event_date = Some ''2024-06-03T10:00:00'',
         title = Some ''Planning'', google_event_id = Some ''g001'' \<rparr>) \<in> set mixed_ledger"
    by (simp add: mixed_ledger_def)
  have c: "cleanup_old_events py_fromisoformat june_first mixed_ledger = [hd mixed_ledger]"
    by code_simp
  note inv = cleanup_old_events_invariant [of py_fromisoformat june_first mixed_ledger, OF h]
  have "hd mixed_ledger \<in> set (cleanup_old_events py_fromisoformat june_first mixed_ledger)"
    by (simp add: c)
  from bspec [OF conjunct1 [OF inv] this]
  have a: "\<exists>d. synced_date (snd (hd mixed_ledger)) \<noteq> None
          \<and> py_fromisoformat (the (synced_date (snd (hd mixed_ledger)))) = Some (Naive d)
          \<and> june_first - days60 \<le> d"
    by (simp add: case_prod_unfold)
  have b: "''outlook-1111111111111111''
        \<notin> fst ` set (cleanup_old_events py_fromisoformat june_first mixed_ledger)"
    using bspec [OF conjunct2 [OF inv] m] by simp
  from h c a b show ?thesis by (intro conjI)
qed

lemma migrate_fold_fst: "fst (fold migrate_step xs st) = fst st"
  by (induction xs arbitrary: st) (auto simp: migrate_step_def split: prod.splits)

text \<open>
  Claim C9. \<^verbatim>\<open>migrate_old_ids\<close> leaves \<^verbatim>\<open>synced_events\<close> as it found it: the loop
  only counts the old-style keys and fills a local dictionary that is dropped, so every
  entry, old-style or not, stays under its key.
\<close>

theorem migrate_old_ids_noop: "migrate_old_ids L = L"
  by (simp add: migrate_old_ids_def migrate_fold_fst)

subsection \<open>The ledger operations and one classification step\<close>

lemma keys_delete: "fst ` set (AList.delete k al) = fst ` set al - {k}"
  by (force simp: AList.delete_eq)

lemma keys_mark_synced:
  "fst ` set (mark_synced isofmt t ev g L) = insert (ev_id ev) (fst ` set L)"
  by (simp add: mark_synced_def AList.dom_update)

lemma map_of_mark_synced_other:
  "k \<noteq> ev_id ev \<Longrightarrow> map_of (mark_synced isofmt t ev g L) k = map_of L k"
  by (simp add: mark_synced_def AList.update_conv')

lemma find_matching_old_eventD:
  assumes "find_matching_old_event isofmt L ev = Some old_id"
  shows "is_old_style_id old_id \<and> old_id \<in> fst ` set L
         \<and> (\<exists>d. find (old_event_matches isofmt ev) L = Some (old_id, d))"
proof -
  from assms obtain p where p: "find (old_event_matches isofmt ev) L = Some p" "fst p = old_id"
    by (auto simp: find_matching_old_event_def)
  then have "old_event_matches isofmt ev p" "p \<in> set L"
    by (auto simp: find_Some_iff)
  with p show ?thesis
    by (cases p) (auto simp: old_event_matches_def intro: rev_image_eqI)
qed

lemma keys_update_event_id:
  "fst ` set (update_event_id isofmt t old_id new_id ev L)
     = (if old_id \<in> fst ` set L then insert new_id (fst ` set L) - {old_id} else fst ` set L)"
  by (auto simp: update_event_id_def AList.dom_update keys_delete map_of_eq_None_iff
           split: option.splits dest: map_of_SomeD intro: rev_image_eqI)

lemma map_of_update_event_id_other:
  "k \<noteq> old_id \<Longrightarrow> k \<noteq> new_id \<Longrightarrow>
     map_of (update_event_id isofmt t old_id new_id ev L) k = map_of L k"
  by (simp add: update_event_id_def AList.update_conv' AList.delete_conv' split: option.splits)

lemma keys_remove_synced_event:
  "fst ` set (remove_synced_event k L) = fst ` set L - {k}"
  by (auto simp: remove_synced_event_def keys_delete)

lemma map_of_remove_synced_event:
  "map_of (remove_synced_event k L) = (map_of L)(k := None)"
  by (auto simp: remove_synced_event_def AList.delete_conv' map_of_eq_None_iff fun_eq_iff)

text \<open>One classification step, by the branch it takes.\<close>

lemma classify_event_synced:
  "is_synced (synced_events s) ev \<Longrightarrow> classify_event E ev (s, new) = (s, new)"
  by (simp add: classify_event_def)

lemma classify_event_cases:
  assumes "classify_event E ev (s, new) = (s', new')"
  obtains
    (synced) "is_synced (synced_events s) ev" "s' = s" "new' = new"
  | (migrate) old_id t where "\<not> is_synced (synced_events s) ev"
      "find_matching_old_event (isoformat E) (synced_events s) ev = Some old_id"
      "synced_events s' = update_event_id (isoformat E) t old_id (ev_id ev) ev (synced_events s)"
      "now E (world s) = (t, world s')"
      "calls s' = calls s" "new' = new"
  | (existing) r t w1 where "\<not> is_synced (synced_events s) ev"
      "find_matching_old_event (isoformat E) (synced_events s) ev = None"
      "check_event_exists E ev (world s) = (r, w1)" "truthy r"
      "now E w1 = (t, world s')"
      "synced_events s' = mark_synced (isoformat E) t ev r (synced_events s)"
      "calls s' = calls s @ [CheckExists ev r]" "new' = new"
  | (fresh) r where "\<not> is_synced (synced_events s) ev"
      "find_matching_old_event (isoformat E) (synced_events s) ev = None"
      "check_event_exists E ev (world s) = (r, world s')" "\<not> truthy r"
      "synced_events s' = synced_events s"
      "calls s' = calls s @ [CheckExists ev r]" "new' = new @ [ev]"
  using assms
  by (auto simp: classify_event_def split: if_splits option.splits prod.splits)

end
